theory Spec2Isabelle
  imports Complex_Main
begin

section \<open>The values the dashboard handles\<close>

text \<open>
  The component of \<^verbatim>\<open>src/App.js\<close> (\<^verbatim>\<open>LiveDataDashboard\<close>) reads a JSON document,
  walks it along a dotted path and keeps the numbers it finds in a bounded list.

  A JavaScript number is a double. The model keeps its four kinds apart (not-a-number, the
  two infinities, a finite value). A finite value is a rational number; the sum and the
  quotient of two finite values are rounded to the nearest double, as IEEE 754 has it (see
  \<open>round_double\<close> below). The two zeros are one.
\<close>

datatype jsnum = NaN | NInf | Fin rat | PInf

text \<open>What \<^verbatim>\<open>response.json()\<close> yields: a JSON document. An object is the association
  list of its own properties, read with \<^const>\<open>map_of\<close>.\<close>

datatype json =
    JNull
  | JBool bool
  | JNum jsnum
  | JStr string
  | JArr "json list"
  | JObj "(string \<times> json) list"

text \<open>
  The values that flow through \<^verbatim>\<open>getValueFromPath\<close>: \<^verbatim>\<open>undefined\<close>, a JSON value, or a
  member that the engine supplies and JSON cannot express (a method reached through a
  prototype, for instance), named and otherwise opaque.
\<close>

datatype jsval = Undefined | Json json | Native string

datatype exn = TypeError string | SyntaxError string | RangeError string | Error string

fun message :: "exn \<Rightarrow> string" where
  "message (TypeError m) = m"
| "message (SyntaxError m) = m"
| "message (RangeError m) = m"
| "message (Error m) = m"

text \<open>JavaScript's truthiness, which \<^verbatim>\<open>&&\<close> and \<^verbatim>\<open>||\<close> test.\<close>

fun truthy :: "jsval \<Rightarrow> bool" where
  "truthy Undefined = False"
| "truthy (Json JNull) = False"
| "truthy (Json (JBool b)) = b"
| "truthy (Json (JNum n)) = (n \<noteq> NaN \<and> n \<noteq> Fin 0)"
| "truthy (Json (JStr s)) = (s \<noteq> [])"
| "truthy (Json (JArr xs)) = True"
| "truthy (Json (JObj kvs)) = True"
| "truthy (Native n) = True"

section \<open>ValueExtractor: \<^verbatim>\<open>getValueFromPath\<close>\<close>

text \<open>
  \<^verbatim>\<open>
  const getValueFromPath = (obj, path) => {
    if (!path) return obj;
    return path.split('.').reduce((acc, part) => acc && acc[part], obj);
  };
  \<close>
\<close>

text \<open>\<^verbatim>\<open>String.prototype.split\<close> with a one-character separator: an empty string gives
  one empty piece, and two separators in a row give an empty piece between them.\<close>

fun js_split :: "char \<Rightarrow> string \<Rightarrow> string list" where
  "js_split c [] = [[]]"
| "js_split c (x # xs) =
     (if x = c then [] # js_split c xs
      else (case js_split c xs of [] \<Rightarrow> [[x]] | w # ws \<Rightarrow> (x # w) # ws))"

text \<open>A property name is an array index when it is the decimal numeral of a natural
  number, written without a sign and without leading zeros.\<close>

definition is_digit :: "char \<Rightarrow> bool" where
  "is_digit c = ((48 :: nat) \<le> of_char c \<and> of_char c \<le> (57 :: nat))"

definition array_index :: "string \<Rightarrow> nat option" where
  "array_index k =
     (if k = [] \<or> \<not> list_all is_digit k \<or> (1 < length k \<and> hd k = CHR ''0'') then None
      else Some (foldl (\<lambda>n c. 10 * n + (of_char c - 48)) (0 :: nat) k))"

text \<open>
  The members that the JSON data itself fixes: the entries of an object, and the elements
  and the length of an array.
\<close>

fun json_member :: "jsval \<Rightarrow> string \<Rightarrow> json option" where
  "json_member (Json (JObj kvs)) k = map_of kvs k"
| "json_member (Json (JArr xs)) k =
     (case array_index k of
        Some i \<Rightarrow> if i < length xs then Some (xs ! i) else None
      | None \<Rightarrow> if k = ''length'' then Some (JNum (Fin (of_nat (length xs)))) else None)"
| "json_member v k = None"

text \<open>
  The property read \<^verbatim>\<open>acc[part]\<close>. Reading a property of \<^verbatim>\<open>undefined\<close> or \<^verbatim>\<open>null\<close> throws.
  An object answers with its own entry, an array with its element at an index or with its
  length. Every other read is the engine's: the parameter \<open>inh\<close> is what the value's
  prototype chain (or, for a primitive, its wrapper) does for the key. It yields the
  member, \<^const>\<open>Undefined\<close> when there is none, or it throws, as an accessor can
  (\<^verbatim>\<open>caller\<close> on a built-in function does).
\<close>

fun get_prop ::
  "(jsval \<Rightarrow> string \<Rightarrow> exn + jsval) \<Rightarrow> jsval \<Rightarrow> string \<Rightarrow> exn + jsval" where
  "get_prop inh Undefined k = Inl (TypeError ''Cannot read properties of undefined'')"
| "get_prop inh (Json JNull) k = Inl (TypeError ''Cannot read properties of null'')"
| "get_prop inh v k =
     (case json_member v k of
        Some w \<Rightarrow> Inr (Json w)
      | None \<Rightarrow> inh v k)"

text \<open>One round of the reducer \<^verbatim>\<open>(acc, part) => acc && acc[part]\<close>: a falsy accumulator is
  the value of \<^verbatim>\<open>&&\<close> as it stands, and its property is not read.\<close>

definition reducer ::
  "(jsval \<Rightarrow> string \<Rightarrow> exn + jsval) \<Rightarrow> jsval \<Rightarrow> string \<Rightarrow> exn + jsval" where
  "reducer inh acc part = (if truthy acc then get_prop inh acc part else Inr acc)"

fun reduce_path ::
  "(jsval \<Rightarrow> string \<Rightarrow> exn + jsval) \<Rightarrow> jsval \<Rightarrow> string list \<Rightarrow> exn + jsval" where
  "reduce_path inh acc [] = Inr acc"
| "reduce_path inh acc (part # parts) =
     (case reducer inh acc part of
        Inl e \<Rightarrow> Inl e
      | Inr acc' \<Rightarrow> reduce_path inh acc' parts)"

definition getValueFromPath ::
  "(jsval \<Rightarrow> string \<Rightarrow> exn + jsval) \<Rightarrow> jsval \<Rightarrow> string \<Rightarrow> exn + jsval" where
  "getValueFromPath inh obj path =
     (if path = [] then Inr obj else reduce_path inh obj (js_split CHR ''.'' path))"

section \<open>Numeric coercion: line 35 of \<^verbatim>\<open>fetchData\<close>\<close>

text \<open>
  \<^verbatim>\<open>
  value: typeof value === 'number' ? value : parseFloat(value) || 0,
  \<close>
  \<^verbatim>\<open>parseFloat\<close> first converts its argument to a string, then skips leading white space,
  then reads the longest prefix that is a decimal literal; it is \<^verbatim>\<open>NaN\<close> when no prefix is
  one. What the engine contributes is a parameter: its prototypes, the text it prints for a
  number and for a native member, the number it reads from a string that starts with a
  decimal literal, and the number of nested array conversions that its call stack holds.
\<close>

record engine =
  inherited :: "jsval \<Rightarrow> string \<Rightarrow> exn + jsval"
  number_to_string :: "jsnum \<Rightarrow> string"
  native_to_string :: "string \<Rightarrow> string"
  decimal_value :: "string \<Rightarrow> jsnum"
  stack_depth :: nat

text \<open>
  The string conversion of a JSON value, with the depth \<open>fuel\<close> that the stack still holds.
  An array is joined with commas, \<^verbatim>\<open>null\<close> elements printing as nothing; the join converts
  each element in turn, one level deeper, and throws a \<^verbatim>\<open>RangeError\<close> when the stack is
  used up. An object prints through \<^verbatim>\<open>Object.prototype.toString\<close>, unless it has a
  \<^verbatim>\<open>toString\<close> property of its own: that one is JSON data and cannot be called, \<^verbatim>\<open>valueOf\<close>
  (its own, or the inherited one, which returns the object) yields no primitive either, and
  the conversion throws a \<^verbatim>\<open>TypeError\<close>.
\<close>

fun json_to_string :: "(jsnum \<Rightarrow> string) \<Rightarrow> nat \<Rightarrow> json \<Rightarrow> exn + string"
  and join :: "(jsnum \<Rightarrow> string) \<Rightarrow> nat \<Rightarrow> json list \<Rightarrow> exn + string" where
  "json_to_string ns fuel JNull = Inr ''null''"
| "json_to_string ns fuel (JBool b) = Inr (if b then ''true'' else ''false'')"
| "json_to_string ns fuel (JNum n) = Inr (ns n)"
| "json_to_string ns fuel (JStr s) = Inr s"
| "json_to_string ns 0 (JArr xs) = Inl (RangeError ''Maximum call stack size exceeded'')"
| "json_to_string ns (Suc fuel) (JArr xs) = join ns fuel xs"
| "json_to_string ns fuel (JObj kvs) =
     (if map_of kvs ''toString'' = None then Inr ''[object Object]''
      else Inl (TypeError ''Cannot convert object to primitive value''))"
| "join ns fuel [] = Inr []"
| "join ns fuel (x # xs) =
     (case (if x = JNull then Inr [] else json_to_string ns fuel x) of
        Inl e \<Rightarrow> Inl e
      | Inr s \<Rightarrow>
          if xs = [] then Inr s
          else (case join ns fuel xs of Inl e \<Rightarrow> Inl e | Inr r \<Rightarrow> Inr (s @ '','' @ r)))"

fun to_string :: "engine \<Rightarrow> jsval \<Rightarrow> exn + string" where
  "to_string eng Undefined = Inr ''undefined''"
| "to_string eng (Json j) = json_to_string (number_to_string eng) (stack_depth eng) j"
| "to_string eng (Native n) = Inr (native_to_string eng n)"

text \<open>
  Leading white space, on the UTF-8 bytes of the string: the number of bytes of the white
  space or line terminator code point that starts \<open>s\<close>, or \<open>0\<close>. (TAB, LF, VT, FF, CR,
  SP; U+00A0; U+1680; U+2000 to U+200A, U+2028, U+2029, U+202F; U+205F; U+3000; U+FEFF.)
\<close>

definition ws_length :: "string \<Rightarrow> nat" where
  "ws_length s =
     (let b = map of_char (take 3 s) :: nat list in
      if b = [] then 0
      else if hd b \<in> set [9, 10, 11, 12, 13, 32] then 1
      else if take 2 b = [194, 160] then 2
      else if b = [225, 154, 128] \<or> b = [226, 129, 159] \<or> b = [227, 128, 128]
              \<or> b = [239, 187, 191] then 3
      else if length b = 3 \<and> take 2 b = [226, 128]
              \<and> b ! 2 \<in> set ([128..<139] @ [168, 169, 175]) then 3
      else 0)"

lemma ws_length_Nil: "ws_length [] = 0"
  by (simp add: ws_length_def)

lemma ws_length_drop: "0 < ws_length s \<Longrightarrow> length s - ws_length s < length s"
  by (cases s) (simp_all add: ws_length_Nil)

function skip_ws :: "string \<Rightarrow> string" where
  "skip_ws s = (if ws_length s = 0 then s else skip_ws (drop (ws_length s) s))"
  by pat_completeness auto
termination
  by (relation "measure length") (auto simp: ws_length_drop)

declare skip_ws.simps [simp del]

text \<open>Some prefix of \<open>s\<close> is a decimal literal: after one optional sign, \<open>s\<close> goes on with
  \<^verbatim>\<open>Infinity\<close>, with a digit, or with a point and a digit.\<close>

definition has_decimal_prefix :: "string \<Rightarrow> bool" where
  "has_decimal_prefix s =
     (let u = (if s \<noteq> [] \<and> (hd s = CHR ''+'' \<or> hd s = CHR ''-'') then tl s else s) in
      take 8 u = ''Infinity'' \<or>
      (u \<noteq> [] \<and> is_digit (hd u)) \<or>
      (1 < length u \<and> hd u = CHR ''.'' \<and> is_digit (u ! 1)))"

definition parseFloat :: "engine \<Rightarrow> jsval \<Rightarrow> exn + jsnum" where
  "parseFloat eng v =
     (case to_string eng v of
        Inl e \<Rightarrow> Inl e
      | Inr s \<Rightarrow>
          Inr (if has_decimal_prefix (skip_ws s) then decimal_value eng (skip_ws s) else NaN))"

text \<open>\<^verbatim>\<open>x || 0\<close> on a number: \<^verbatim>\<open>NaN\<close> and zero are falsy.\<close>

definition or_zero :: "jsnum \<Rightarrow> jsnum" where
  "or_zero x = (if x = NaN \<or> x = Fin 0 then Fin 0 else x)"

text \<open>The \<^verbatim>\<open>value\<close> field of the new data point.\<close>

fun point_value :: "engine \<Rightarrow> jsval \<Rightarrow> exn + jsnum" where
  "point_value eng (Json (JNum n)) = Inr n"
| "point_value eng v =
     (case parseFloat eng v of Inl e \<Rightarrow> Inl e | Inr r \<Rightarrow> Inr (or_zero r))"

section \<open>Arithmetic on numbers\<close>

text \<open>
  Rounding to a double. For a rational \<open>a > 0\<close>, \<open>binary_exponent a\<close> is the whole number
  \<open>e\<close> with \<open>2^e \<le> a < 2^(e+1)\<close>, found from the bit lengths of numerator and denominator.
  A double near \<open>a\<close> is a multiple of \<open>2^(e - 52)\<close>, and of \<open>2^(-1074)\<close> at least; the
  nearest multiple is taken, the even one at a tie; a result of \<open>2^1024\<close> or more is an
  infinity.
\<close>

function bit_length :: "int \<Rightarrow> nat" where
  "bit_length n = (if n \<le> 0 then 0 else Suc (bit_length (n div 2)))"
  by pat_completeness auto
termination
  by (relation "measure nat") auto

declare bit_length.simps [simp del]

definition pow2 :: "int \<Rightarrow> rat" where
  "pow2 k = (if 0 \<le> k then 2 ^ nat k else 1 / 2 ^ nat (- k))"

definition binary_exponent :: "rat \<Rightarrow> int" where
  "binary_exponent a =
     (let k = int (bit_length (fst (quotient_of a))) - int (bit_length (snd (quotient_of a)))
      in if pow2 k \<le> a then k else k - 1)"

definition round_half_even :: "rat \<Rightarrow> int" where
  "round_half_even m =
     (let f = \<lfloor>m\<rfloor>; r = m - of_int f
      in if r < 1 / 2 then f else if 1 / 2 < r then f + 1 else if even f then f else f + 1)"

definition round_double :: "rat \<Rightarrow> jsnum" where
  "round_double q =
     (if q = 0 then Fin 0
      else if 1024 \<le> binary_exponent \<bar>q\<bar> then (if 0 < q then PInf else NInf)
      else let u = pow2 (max (binary_exponent \<bar>q\<bar> - 52) (- 1074));
               n = round_half_even (\<bar>q\<bar> / u)
           in if binary_exponent \<bar>q\<bar> = 1023 \<and> n = 9007199254740992
              then (if 0 < q then PInf else NInf)
              else Fin (if 0 < q then of_int n * u else - (of_int n * u)))"

text \<open>A rational is a double when rounding leaves it as it is.\<close>

definition is_double :: "rat \<Rightarrow> bool" where
  "is_double q = (round_double q = Fin q)"

fun js_neg :: "jsnum \<Rightarrow> jsnum" where
  "js_neg NaN = NaN"
| "js_neg NInf = PInf"
| "js_neg PInf = NInf"
| "js_neg (Fin q) = Fin (- q)"

fun js_add :: "jsnum \<Rightarrow> jsnum \<Rightarrow> jsnum" where
  "js_add (Fin a) (Fin b) = round_double (a + b)"
| "js_add NaN y = NaN"
| "js_add x NaN = NaN"
| "js_add PInf NInf = NaN"
| "js_add NInf PInf = NaN"
| "js_add PInf y = PInf"
| "js_add NInf y = NInf"
| "js_add x PInf = PInf"
| "js_add x NInf = NInf"

fun js_div :: "jsnum \<Rightarrow> jsnum \<Rightarrow> jsnum" where
  "js_div (Fin a) (Fin b) =
     (if b = 0 then (if a = 0 then NaN else if 0 < a then PInf else NInf)
      else round_double (a / b))"
| "js_div NaN y = NaN"
| "js_div x NaN = NaN"
| "js_div (Fin a) y = Fin 0"
| "js_div PInf (Fin b) = (if 0 \<le> b then PInf else NInf)"
| "js_div NInf (Fin b) = (if 0 \<le> b then NInf else PInf)"
| "js_div x y = NaN"

fun js_less :: "jsnum \<Rightarrow> jsnum \<Rightarrow> bool" where
  "js_less (Fin a) (Fin b) = (a < b)"
| "js_less NaN y = False"
| "js_less x NaN = False"
| "js_less NInf NInf = False"
| "js_less NInf y = True"
| "js_less x NInf = False"
| "js_less PInf y = False"
| "js_less x PInf = True"

text \<open>\<^verbatim>\<open>Math.min(...xs)\<close> and \<^verbatim>\<open>Math.max(...xs)\<close>: \<^verbatim>\<open>NaN\<close> if any argument is, else the least
  (greatest) argument, starting from plus (minus) infinity.\<close>

definition math_min :: "jsnum list \<Rightarrow> jsnum" where
  "math_min xs =
     foldl (\<lambda>lowest x. if lowest = NaN \<or> x = NaN then NaN
                        else if js_less x lowest then x else lowest) PInf xs"

definition math_max :: "jsnum list \<Rightarrow> jsnum" where
  "math_max xs =
     foldl (\<lambda>highest x. if highest = NaN \<or> x = NaN then NaN
                         else if js_less highest x then x else highest) NInf xs"

section \<open>SeriesBuffer: the \<^verbatim>\<open>data\<close> state\<close>

text \<open>A data point. Its field \<^verbatim>\<open>value\<close> is \<open>val\<close> here.\<close>

record dataPoint =
  timestamp :: string
  val :: jsnum
  fullData :: json

text \<open>\<^verbatim>\<open>Array.prototype.slice(start)\<close>: the start is made an integer (\<^verbatim>\<open>NaN\<close> is 0, a fraction
  is cut towards 0), a negative start counts from the end, and both are clamped.\<close>

definition trunc :: "rat \<Rightarrow> int" where
  "trunc q = (if 0 \<le> q then \<lfloor>q\<rfloor> else \<lceil>q\<rceil>)"

fun slice_from :: "'a list \<Rightarrow> jsnum \<Rightarrow> 'a list" where
  "slice_from xs NaN = xs"
| "slice_from xs NInf = xs"
| "slice_from xs PInf = []"
| "slice_from xs (Fin q) =
     (if trunc q < 0 then drop (nat (max (int (length xs) + trunc q) 0)) xs
      else drop (nat (min (trunc q) (int (length xs)))) xs)"

text \<open>
  The updater handed to \<^verbatim>\<open>setData\<close>:
  \<^verbatim>\<open>
  prevData => {
    const updated = [...prevData, newDataPoint];
    return updated.slice(-maxDataPoints);
  }
  \<close>
\<close>

definition append_point :: "jsnum \<Rightarrow> dataPoint list \<Rightarrow> dataPoint \<Rightarrow> dataPoint list" where
  "append_point cap prevData newDataPoint =
     slice_from (prevData @ [newDataPoint]) (js_neg cap)"

text \<open>
  \<^verbatim>\<open>
  const stats = data.length > 0 ? {
    latest: data[data.length - 1]?.value,
    min: Math.min(...data.map(d => d.value)),
    max: Math.max(...data.map(d => d.value)),
    avg: data.reduce((sum, d) => sum + d.value, 0) / data.length
  } : null;
  \<close>
\<close>

text \<open>The fields \<^verbatim>\<open>min\<close> and \<^verbatim>\<open>max\<close> of the object are \<open>min_val\<close> and \<open>max_val\<close> here.\<close>

record summary =
  latest :: jsnum
  min_val :: jsnum
  max_val :: jsnum
  avg :: jsnum

definition stats :: "dataPoint list \<Rightarrow> summary option" where
  "stats d =
     (if 0 < length d then
        Some \<lparr> latest = val (d ! (length d - 1)),
               min_val = math_min (map val d),
               max_val = math_max (map val d),
               avg = js_div (foldl (\<lambda>sum p. js_add sum (val p)) (Fin 0) d)
                       (Fin (of_nat (length d))) \<rparr>
      else None)"

section \<open>The component's state\<close>

text \<open>The nine \<^verbatim>\<open>useState\<close> cells of \<^verbatim>\<open>LiveDataDashboard\<close>, with their initial values.
  \<^verbatim>\<open>lastUpdate\<close> is a reading of the clock; \<^verbatim>\<open>maxDataPoints\<close> is whatever number the
  input field yields.\<close>

record dashboard =
  data :: "dataPoint list"
  isLive :: bool
  apiUrl :: string
  refreshInterval :: nat
  lastUpdate :: "nat option"
  error :: "string option"
  isConfigOpen :: bool
  jsonPath :: string
  maxDataPoints :: jsnum

definition initial :: dashboard where
  "initial =
     \<lparr> data = [], isLive = False,
       apiUrl = ''https://api.coindesk.com/v1/bpi/currentprice.json'',
       refreshInterval = 5000, lastUpdate = None, error = None, isConfigOpen = False,
       jsonPath = ''bpi.USD.rate_float'', maxDataPoints = Fin 20 \<rparr>"

text \<open>The state setters that the handlers call.\<close>

definition setIsLive :: "bool \<Rightarrow> dashboard \<Rightarrow> dashboard" where
  "setIsLive b st = st\<lparr>isLive := b\<rparr>"

definition setApiUrl :: "string \<Rightarrow> dashboard \<Rightarrow> dashboard" where
  "setApiUrl u st = st\<lparr>apiUrl := u\<rparr>"

definition setJsonPath :: "string \<Rightarrow> dashboard \<Rightarrow> dashboard" where
  "setJsonPath p st = st\<lparr>jsonPath := p\<rparr>"

definition setRefreshInterval :: "nat \<Rightarrow> dashboard \<Rightarrow> dashboard" where
  "setRefreshInterval ms st = st\<lparr>refreshInterval := ms\<rparr>"

definition setMaxDataPoints :: "jsnum \<Rightarrow> dashboard \<Rightarrow> dashboard" where
  "setMaxDataPoints n st = st\<lparr>maxDataPoints := n\<rparr>"

definition setIsConfigOpen :: "bool \<Rightarrow> dashboard \<Rightarrow> dashboard" where
  "setIsConfigOpen b st = st\<lparr>isConfigOpen := b\<rparr>"

text \<open>
  \<^verbatim>\<open>
  const toggleLive = () => { setIsLive(!isLive); };
  const clearData = () => { setData([]); setError(null); };
  \<close>
\<close>

definition toggleLive :: "dashboard \<Rightarrow> dashboard" where
  "toggleLive st = setIsLive (\<not> isLive st) st"

definition clearData :: "dashboard \<Rightarrow> dashboard" where
  "clearData st = st\<lparr>data := [], error := None\<rparr>"

text \<open>
  \<^verbatim>\<open>
  const loadExample = (example) => {
    setApiUrl(example.url);
    setJsonPath(example.path);
    setIsConfigOpen(false);
    clearData();
  };
  \<close>
\<close>

record apiExample =
  name :: string
  url :: string
  path :: string
  description :: string

definition apiExamples :: "apiExample list" where
  "apiExamples =
     [ \<lparr> name = ''Bitcoin Price (CoinDesk)'',
         url = ''https://api.coindesk.com/v1/bpi/currentprice.json'',
         path = ''bpi.USD.rate_float'',
         description = ''Precio actual de Bitcoin en USD'' \<rparr>,
       \<lparr> name = ''Random User API'',
         url = ''https://randomuser.me/api/'',
         path = ''results[0].login.uuid'',
         description = ''Datos aleatorios de usuarios (extrae UUID)'' \<rparr>,
       \<lparr> name = ''JSONPlaceholder - Posts'',
         url = ''https://jsonplaceholder.typicode.com/posts/1'',
         path = ''id'',
         description = ''API de prueba - ID del post'' \<rparr>,
       \<lparr> name = ''Open-Meteo Weather'',
         url = ''https://api.open-meteo.com/v1/forecast?latitude=40.4168&longitude=-3.7038&current=temperature_2m'',
         path = ''current.temperature_2m'',
         description = ''Temperatura actual en Madrid'' \<rparr> ]"

definition loadExample :: "apiExample \<Rightarrow> dashboard \<Rightarrow> dashboard" where
  "loadExample example st =
     clearData (setIsConfigOpen False (setJsonPath (path example) (setApiUrl (url example) st)))"

section \<open>The poll step: \<^verbatim>\<open>fetchData\<close>\<close>

text \<open>
  What the network gives back to \<^verbatim>\<open>fetch(apiUrl)\<close> is an input of the model: the promise
  rejects with an error that has a message, or it resolves to a response with a status, whose
  body \<^verbatim>\<open>response.json()\<close> either parses or rejects with a message.
\<close>

datatype body = JsonBody json | BadBody string

datatype fetch_result = Rejected string | Response nat body

text \<open>\<^verbatim>\<open>response.ok\<close>: the status is in the range 200 to 299.\<close>

definition ok :: "nat \<Rightarrow> bool" where
  "ok status = (200 \<le> status \<and> status \<le> 299)"

text \<open>The decimal numeral of the status, as the template literal prints it.\<close>

fun string_of_nat :: "nat \<Rightarrow> string" where
  "string_of_nat n =
     (if n < 10 then [''0123456789'' ! n]
      else string_of_nat (n div 10) @ [''0123456789'' ! (n mod 10)])"

declare string_of_nat.simps [simp del]

text \<open>
  The body of the \<^verbatim>\<open>try\<close> block up to the new data point (lines 25 to 37): \<^const>\<open>Inl\<close> is the
  exception that leaves the block. \<open>jp\<close> is the \<^verbatim>\<open>jsonPath\<close> that the closure holds and
  \<open>stamp\<close> the text of \<^verbatim>\<open>new Date().toLocaleTimeString()\<close>.
\<close>

definition newDataPoint :: "engine \<Rightarrow> string \<Rightarrow> fetch_result \<Rightarrow> string \<Rightarrow> exn + dataPoint" where
  "newDataPoint eng jp res stamp =
     (case res of
        Rejected m \<Rightarrow> Inl (TypeError m)
      | Response status b \<Rightarrow>
          if \<not> ok status then Inl (Error (''HTTP error! status: '' @ string_of_nat status))
          else (case b of
                  BadBody m \<Rightarrow> Inl (SyntaxError m)
                | JsonBody json \<Rightarrow>
                    (case getValueFromPath (inherited eng) (Json json) jp of
                       Inl e \<Rightarrow> Inl e
                     | Inr v \<Rightarrow>
                         (case point_value eng v of
                            Inl e \<Rightarrow> Inl e
                          | Inr n \<Rightarrow> Inr \<lparr> timestamp = stamp, val = n, fullData = json \<rparr>))))"

text \<open>
  The whole of \<^verbatim>\<open>fetchData\<close>. \<open>snap\<close> is the render whose closure this call is: it fixes
  the \<^verbatim>\<open>jsonPath\<close> and the \<^verbatim>\<open>maxDataPoints\<close> in use (and the \<^verbatim>\<open>apiUrl\<close> that was fetched).
  \<open>st\<close> is the state that the setters update when the call settles; \<open>now\<close> is the clock
  then. The result is \<^const>\<open>Inr\<close> of the new state, or \<^const>\<open>Inl\<close> of an exception that escapes
  the function.
  \<^verbatim>\<open>
      setData(prevData => ...);
      setLastUpdate(new Date());
      setError(null);
    } catch (err) {
      setError(err.message);
      console.error('Error fetching data:', err);
    }
  \<close>
\<close>

definition fetchData ::
  "engine \<Rightarrow> dashboard \<Rightarrow> fetch_result \<Rightarrow> string \<Rightarrow> nat \<Rightarrow> dashboard \<Rightarrow> exn + dashboard" where
  "fetchData eng snap res stamp now st =
     (case newDataPoint eng (jsonPath snap) res stamp of
        Inr pt \<Rightarrow>
          Inr (st\<lparr> data := append_point (maxDataPoints snap) (data st) pt,
                   lastUpdate := Some now,
                   error := None \<rparr>)
      | Inl err \<Rightarrow> Inr (st\<lparr> error := Some (message err) \<rparr>))"

section \<open>PollingController: the effect and its timer\<close>

text \<open>
  \<^verbatim>\<open>
  useEffect(() => {
    let intervalId;
    if (isLive) {
      fetchData();
      intervalId = setInterval(() => { fetchData(); }, refreshInterval);
    }
    return () => { if (intervalId) clearInterval(intervalId); };
  }, [isLive, refreshInterval, fetchData]);
  \<close>
  The host keeps the armed repeating timers, each with its handle and its period, and hands
  out handles that are positive and fresh. \<open>intervalId\<close> is the variable that the pending
  clean-up function has captured (\<^const>\<open>None\<close> is \<^verbatim>\<open>undefined\<close>); \<open>started\<close> counts the
  calls of \<^verbatim>\<open>fetchData\<close> that the effect has made itself.
\<close>

record host =
  timers :: "(nat \<times> nat) list"
  nextHandle :: nat
  intervalId :: "nat option"
  started :: nat

definition host0 :: host where
  "host0 = \<lparr> timers = [], nextHandle = 1, intervalId = None, started = 0 \<rparr>"

definition effect :: "dashboard \<Rightarrow> host \<Rightarrow> host" where
  "effect st h =
     (if isLive st then
        h\<lparr> started := started h + 1,
           timers := timers h @ [(nextHandle h, refreshInterval st)],
           intervalId := Some (nextHandle h),
           nextHandle := nextHandle h + 1 \<rparr>
      else h\<lparr> intervalId := None \<rparr>)"

definition cleanup :: "host \<Rightarrow> host" where
  "cleanup h =
     (case intervalId h of
        None \<Rightarrow> h
      | Some i \<Rightarrow> if i \<noteq> 0 then h\<lparr> timers := filter (\<lambda>t. fst t \<noteq> i) (timers h) \<rparr> else h)"

text \<open>
  The dependencies of the effect. \<^verbatim>\<open>fetchData\<close> comes from \<^verbatim>\<open>useCallback\<close> with the
  dependencies \<^verbatim>\<open>[apiUrl, jsonPath, maxDataPoints]\<close>: it is a new function exactly when one
  of them has changed since the last render.
\<close>

definition deps :: "dashboard \<Rightarrow> bool \<times> nat \<times> string \<times> string \<times> jsnum" where
  "deps st = (isLive st, refreshInterval st, apiUrl st, jsonPath st, maxDataPoints st)"

text \<open>React after a render: when a dependency has changed, the clean-up of the previous run
  of the effect is called, then the effect runs again. On mount the effect runs once.\<close>

definition commit :: "dashboard \<Rightarrow> dashboard \<Rightarrow> host \<Rightarrow> host" where
  "commit old new h = (if deps new = deps old then h else effect new (cleanup h))"

definition mounted :: "dashboard \<times> host" where
  "mounted = (initial, effect initial host0)"

text \<open>
  What can happen to a mounted component: the handlers of the page (the Live button, the
  interval menu, the three configuration fields, an example button, the clear button, the
  configuration button), the setter \<^verbatim>\<open>setIsLive\<close> called with a given value (the
  \<^verbatim>\<open>start()\<close> and \<^verbatim>\<open>stop()\<close> of the controller), and a call of \<^verbatim>\<open>fetchData\<close> that settles.
  All the setters of one handler are batched into one render. A step of the model is one
  such event together with the render it causes and the effect that the render flushes. A
  tick of an armed timer calls \<^verbatim>\<open>fetchData\<close> and changes nothing until that call settles.
\<close>

datatype action =
    ToggleLive
  | SetIsLive bool
  | SetRefreshInterval nat
  | SetApiUrl string
  | SetJsonPath string
  | SetMaxDataPoints jsnum
  | LoadExample apiExample
  | ClearData
  | ToggleConfig
  | Settled dashboard fetch_result string nat

fun update :: "engine \<Rightarrow> action \<Rightarrow> dashboard \<Rightarrow> dashboard" where
  "update eng ToggleLive st = toggleLive st"
| "update eng (SetIsLive b) st = setIsLive b st"
| "update eng (SetRefreshInterval ms) st = setRefreshInterval ms st"
| "update eng (SetApiUrl u) st = setApiUrl u st"
| "update eng (SetJsonPath p) st = setJsonPath p st"
| "update eng (SetMaxDataPoints n) st = setMaxDataPoints n st"
| "update eng (LoadExample example) st = loadExample example st"
| "update eng ClearData st = clearData st"
| "update eng ToggleConfig st = setIsConfigOpen (\<not> isConfigOpen st) st"
| "update eng (Settled snap res stamp now) st =
     (case fetchData eng snap res stamp now st of Inr st' \<Rightarrow> st' | Inl e \<Rightarrow> st)"

definition step :: "engine \<Rightarrow> dashboard \<times> host \<Rightarrow> action \<Rightarrow> dashboard \<times> host" where
  "step eng s a = (let st' = update eng a (fst s) in (st', commit (fst s) st' (snd s)))"

definition run :: "engine \<Rightarrow> action list \<Rightarrow> dashboard \<times> host" where
  "run eng acts = foldl (step eng) mounted acts"

text \<open>
  Two engines to run the definitions on concrete inputs. The first has empty prototypes,
  prints nothing for a number or a native member, and reads the whole number that a string
  starts with. The second has, in addition, the member \<^verbatim>\<open>constructor\<close> on every value, a
  built-in function whose \<^verbatim>\<open>caller\<close> accessor throws.
\<close>

definition digits_value :: "string \<Rightarrow> jsnum" where
  "digits_value s =
     Fin (of_nat (foldl (\<lambda>n c. 10 * n + (of_char c - 48)) (0 :: nat) (takeWhile is_digit s)))"

definition plain_engine :: engine where
  "plain_engine =
     \<lparr> inherited = (\<lambda>v k. Inr Undefined), number_to_string = (\<lambda>n. []),
       native_to_string = (\<lambda>n. []), decimal_value = digits_value, stack_depth = 1000 \<rparr>"

definition accessor_engine :: engine where
  "accessor_engine =
     plain_engine \<lparr> inherited :=
       (\<lambda>v k. if v = Native ''Object'' \<and> k = ''caller''
               then Inl (TypeError ''caller may not be accessed on this function'')
               else if k = ''constructor'' then Inr (Native ''Object'')
               else Inr Undefined) \<rparr>"

text \<open>
  The sums that meet no rounding: starting from \<open>a\<close> and adding the numbers of the list one
  by one, every sum is a double.
\<close>

fun sums_exact :: "rat \<Rightarrow> rat list \<Rightarrow> bool" where
  "sums_exact a [] = True"
| "sums_exact a (q # qs) = (is_double (a + q) \<and> sums_exact (a + q) qs)"

text \<open>A data point for the examples: it carries the number \<open>q\<close>, read from a document that
  is that number.\<close>

definition point_of :: "rat \<Rightarrow> dataPoint" where
  "point_of q = \<lparr> timestamp = [], val = Fin q, fullData = JNum (Fin q) \<rparr>"

text \<open>
  What the controller is meant to keep: handles are positive; when the component is paused
  no timer is armed and the clean-up holds no handle; when it is live exactly one timer is
  armed, at the current \<^verbatim>\<open>refreshInterval\<close>, and it is the one that the clean-up holds.
\<close>

definition armed :: "dashboard \<times> host \<Rightarrow> bool" where
  "armed s =
     (0 < nextHandle (snd s) \<and>
      (case intervalId (snd s) of
         None \<Rightarrow> \<not> isLive (fst s) \<and> timers (snd s) = []
       | Some i \<Rightarrow>
           isLive (fst s) \<and> timers (snd s) = [(i, refreshInterval (fst s))]
           \<and> 0 < i \<and> i < nextHandle (snd s)))"

section \<open>Properties of the extractor\<close>












text \<open>An accessor that throws ends the walk with its exception: \<^verbatim>\<open>{}\<close> read at
  \<^verbatim>\<open>constructor.caller\<close>.\<close>

lemma getValueFromPath_accessor:
  "getValueFromPath (inherited accessor_engine) (Json (JObj [])) ''constructor.caller''
     = Inl (TypeError ''caller may not be accessed on this function'')"
  by (simp add: getValueFromPath_def reducer_def accessor_engine_def plain_engine_def)

text \<open>
  C9. With the empty path, \<^verbatim>\<open>getValueFromPath\<close> returns the root value as it is, whatever
  the root is and whatever the engine's prototypes hold.
\<close>

theorem getValueFromPath_empty_path:
  "getValueFromPath inh obj '''' = Inr obj"
  by (simp add: getValueFromPath_def)

section \<open>Properties of the numeric coercion\<close>

lemma skip_ws_undefined: "skip_ws ''undefined'' = ''undefined''"
  by (simp add: skip_ws.simps ws_length_def)

lemma no_prefix_undefined: "\<not> has_decimal_prefix ''undefined''"
  by (simp add: has_decimal_prefix_def is_digit_def)

text \<open>A number is used as it is, and the absent value gives \<open>0\<close>, on every engine.\<close>

lemma point_value_defaults:
  "point_value eng (Json (JNum n)) = Inr n \<and> point_value eng Undefined = Inr (Fin 0)"
  by (simp add: parseFloat_def skip_ws_undefined no_prefix_undefined or_zero_def)

text \<open>An array nested more deeply than the engine's stack holds cannot be converted to a
  string either: here the stack holds one level and the array has two.\<close>

lemma point_value_deep_array:
  "point_value (plain_engine \<lparr> stack_depth := 1 \<rparr>) (Json (JArr [JArr [JNum (Fin 1)]]))
     = Inl (RangeError ''Maximum call stack size exceeded'')"
  by (simp add: parseFloat_def plain_engine_def)

text \<open>
  C5. The coercion is meant to give a number for every leaf, by the default \<^verbatim>\<open>|| 0\<close>: the
  object \<^verbatim>\<open>{"a": 1}\<close>, which does not parse as a number, gives \<open>0\<close>. But the object
  \<^verbatim>\<open>{"toString": 1}\<close> makes \<^verbatim>\<open>parseFloat\<close> throw a \<^verbatim>\<open>TypeError\<close> before the default
  applies: its \<^verbatim>\<open>toString\<close> is not callable, so it has no string conversion.
\<close>

theorem point_value_own_toString_raises:
  "point_value plain_engine (Json (JObj [(''a'', JNum (Fin 1))])) = Inr (Fin 0)
   \<and> point_value plain_engine (Json (JObj [(''toString'', JNum (Fin 1))]))
       = Inl (TypeError ''Cannot convert object to primitive value'')"
  by (simp add: parseFloat_def plain_engine_def skip_ws.simps ws_length_def
      has_decimal_prefix_def is_digit_def or_zero_def)

section \<open>Properties of the buffer\<close>

lemma trunc_of_int: "trunc (of_int z) = z"
  by (simp add: trunc_def)

lemma slice_from_last:
  assumes "1 \<le> N"
  shows "slice_from xs (Fin (- of_nat N)) = drop (length xs - N) xs"
proof -
  have "- (of_nat N :: rat) = of_int (- int N)" by simp
  then have t: "trunc (- of_nat N) = - int N"
    using trunc_of_int by metis
  have "nat (max (int (length xs) + - int N) 0) = length xs - N" by simp
  with t assms show ?thesis by simp
qed

lemma append_point_last:
  assumes "1 \<le> N"
  shows "append_point (Fin (of_nat N)) b x = drop (length b + 1 - N) (b @ [x])"
proof -
  have "append_point (Fin (of_nat N)) b x = slice_from (b @ [x]) (Fin (- of_nat N))"
    by (simp add: append_point_def del: slice_from.simps)
  also have "\<dots> = drop (length (b @ [x]) - N) (b @ [x])"
    using assms by (rule slice_from_last)
  finally show ?thesis by simp
qed

lemma drop_snoc_full:
  "length d = N \<Longrightarrow> 1 \<le> N \<Longrightarrow> drop (length d + 1 - N) (d @ [x]) = drop 1 d @ [x]"
  by (cases d) auto

lemma drop_snoc_within: "k \<le> length ys \<Longrightarrow> drop k (ys @ [x]) = drop k ys @ [x]"
  by simp

lemma foldl_append_point:
  assumes "1 \<le> N" and "xs \<noteq> []"
  shows "foldl (append_point (Fin (of_nat N))) b xs = drop (length (b @ xs) - N) (b @ xs)"
  using assms(2)
proof (induction xs rule: rev_nonempty_induct)
  case (single x)
  show ?case using append_point_last [OF assms(1), of b x] by simp
next
  case (snoc x xs)
  let ?ys = "b @ xs"
  let ?d = "drop (length ?ys - N) ?ys"
  have "foldl (append_point (Fin (of_nat N))) b (xs @ [x]) = append_point (Fin (of_nat N)) ?d x"
    using snoc.IH by simp
  also have "\<dots> = drop (length ?d + 1 - N) (?d @ [x])"
    using assms(1) by (rule append_point_last)
  also have "\<dots> = drop (length (?ys @ [x]) - N) (?ys @ [x])"
  proof (cases "length ?ys \<le> N")
    case True
    then have "?d = ?ys" by simp
    then show ?thesis by simp
  next
    case False
    then have len: "length ?d = N" by simp
    have "drop (length ?d + 1 - N) (?d @ [x]) = drop 1 ?d @ [x]"
      using len assms(1) by (rule drop_snoc_full)
    also have "\<dots> = drop (1 + (length ?ys - N)) ?ys @ [x]"
      by (simp only: drop_drop)
    also have "\<dots> = drop (1 + (length ?ys - N)) (?ys @ [x])"
    proof (rule drop_snoc_within [symmetric])
      show "1 + (length ?ys - N) \<le> length ?ys"
        using False assms(1) by linarith
    qed
    also have "1 + (length ?ys - N) = length (?ys @ [x]) - N"
      using False assms(1) by simp
    finally show ?thesis .
  qed
  finally show ?case by simp
qed

text \<open>With the capacity 0, which an emptied capacity field yields, \<^verbatim>\<open>slice(-0)\<close> keeps every
  point: the bound below is for a capacity of at least 1.\<close>

lemma append_point_zero: "append_point (Fin 0) b x = b @ [x]"
  by (simp add: append_point_def trunc_def)

text \<open>
  C4. Let the capacity be a whole number \<open>N\<close> of at least 1, and append the points \<open>xs\<close>,
  one after the other, to a buffer \<open>b\<close>.
  \<^item> If \<open>b\<close> holds at most \<open>N\<close> points (the empty buffer does), the buffer holds at most
    \<open>N\<close> points after the appends, hence after every one of them.
  \<^item> After at least one append the buffer holds at most \<open>N\<close> points, whatever it held.
  \<^item> After \<open>N\<close> appends or more, the buffer is exactly the last \<open>N\<close> points appended, in
    the order of their arrival, and its length is \<open>N\<close>.
\<close>

theorem series_buffer_bounded:
  assumes "1 \<le> N"
  shows "(length b \<le> N \<longrightarrow> length (foldl (append_point (Fin (of_nat N))) b xs) \<le> N)
       \<and> (xs \<noteq> [] \<longrightarrow> length (foldl (append_point (Fin (of_nat N))) b xs) \<le> N)
       \<and> (N \<le> length xs \<longrightarrow>
            foldl (append_point (Fin (of_nat N))) b xs = drop (length xs - N) xs
            \<and> length (foldl (append_point (Fin (of_nat N))) b xs) = N)"
proof -
  have nonempty: "length (foldl (append_point (Fin (of_nat N))) b xs) \<le> N" if "xs \<noteq> []"
    using foldl_append_point [OF assms that, of b] by simp
  have start: "length (foldl (append_point (Fin (of_nat N))) b xs) \<le> N" if "length b \<le> N"
    using that nonempty by (cases "xs = []") simp_all
  have full: "foldl (append_point (Fin (of_nat N))) b xs = drop (length xs - N) xs"
    if "N \<le> length xs"
  proof -
    from that assms have "xs \<noteq> []" by auto
    then have "foldl (append_point (Fin (of_nat N))) b xs
                 = drop (length (b @ xs) - N) (b @ xs)"
      using foldl_append_point [OF assms] by simp
    also have "\<dots> = drop (length xs - N) xs"
      using that by simp
    finally show ?thesis .
  qed
  show ?thesis
    using nonempty start full by auto
qed

theorem series_buffer_bounded_witness:
  "(1 :: nat) \<le> 2
   \<and> foldl (append_point (Fin 2)) [] (map point_of [1, 2, 3]) = map point_of [2, 3]
   \<and> length (foldl (append_point (Fin 2)) [] (map point_of [1, 2, 3])) = 2"
proof -
  have n: "(1 :: nat) \<le> 2" by simp
  show ?thesis
    using series_buffer_bounded [OF n, of "[]" "map point_of [1, 2, 3]"] by simp
qed

text \<open>
  C2, as the code has it. \<^verbatim>\<open>setMaxDataPoints\<close> changes the capacity and nothing else: the
  buffer keeps every point it held. The points are trimmed by a later poll that succeeds,
  and to the capacity \<open>M\<close> that the poll's closure \<open>snap\<close> has captured (a whole number of
  at least 1): that poll leaves the \<open>M\<close> most recent of the old points and the new one. So
  a poll started after the change trims to the new capacity, and a poll that was in flight
  when the capacity changed trims to the old one.
\<close>

theorem setMaxDataPoints_trims_at_next_append:
  "setMaxDataPoints n st = st\<lparr>maxDataPoints := n\<rparr>
   \<and> data (setMaxDataPoints n st) = data st
   \<and> maxDataPoints (setMaxDataPoints n st) = n
   \<and> (1 \<le> M \<longrightarrow> maxDataPoints snap = Fin (of_nat M) \<longrightarrow>
        (\<forall>pt. newDataPoint eng (jsonPath snap) res stamp = Inr pt \<longrightarrow>
           (\<exists>st'. fetchData eng snap res stamp now (setMaxDataPoints n st) = Inr st'
                 \<and> data st' = drop (length (data st) + 1 - M) (data st @ [pt]))))"
  by (simp add: setMaxDataPoints_def fetchData_def append_point_last)

text \<open>The buffer holds the points 1, 2, 3, the path is empty (the document itself is the
  value) and the capacity is lowered from 20 to 2. A poll
  started after the change leaves the points 3 and 4; a poll started before it, and settling
  after it, leaves all four.\<close>

theorem setMaxDataPoints_trims_at_next_append_witness:
  "(1 :: nat) \<le> 2
   \<and> maxDataPoints (setMaxDataPoints (Fin 2) (initial\<lparr>data := map point_of [1, 2, 3], jsonPath := []\<rparr>)) = Fin 2
   \<and> maxDataPoints (initial\<lparr>data := map point_of [1, 2, 3], jsonPath := []\<rparr>) = Fin 20
   \<and> newDataPoint plain_engine [] (Response 200 (JsonBody (JNum (Fin 4)))) []
       = Inr (point_of 4)
   \<and> (\<exists>st'. fetchData plain_engine
               (setMaxDataPoints (Fin 2) (initial\<lparr>data := map point_of [1, 2, 3], jsonPath := []\<rparr>))
               (Response 200 (JsonBody (JNum (Fin 4)))) [] 7
               (setMaxDataPoints (Fin 2) (initial\<lparr>data := map point_of [1, 2, 3], jsonPath := []\<rparr>))
             = Inr st'
           \<and> data st' = map point_of [3, 4])
   \<and> (\<exists>st'. fetchData plain_engine (initial\<lparr>data := map point_of [1, 2, 3], jsonPath := []\<rparr>)
               (Response 200 (JsonBody (JNum (Fin 4)))) [] 7
               (setMaxDataPoints (Fin 2) (initial\<lparr>data := map point_of [1, 2, 3], jsonPath := []\<rparr>))
             = Inr st'
           \<and> data st' = map point_of [1, 2, 3, 4])"
proof -
  let ?st = "initial\<lparr>data := map point_of [1, 2, 3], jsonPath := []\<rparr>"
  let ?res = "Response 200 (JsonBody (JNum (Fin 4)))"
  have j: "jsonPath ?st = []"
    by (simp add: initial_def)
  have p: "newDataPoint plain_engine [] ?res [] = Inr (point_of 4)"
    by (simp add: newDataPoint_def ok_def getValueFromPath_def reducer_def plain_engine_def
        point_of_def)
  have m: "maxDataPoints ?st = Fin (of_nat 20)"
    by (simp add: initial_def)
  have fresh: "\<exists>st'. fetchData plain_engine (setMaxDataPoints (Fin 2) ?st) ?res [] 7
                   (setMaxDataPoints (Fin 2) ?st) = Inr st'
                 \<and> data st' = map point_of [3, 4]"
    using setMaxDataPoints_trims_at_next_append
      [of "Fin 2" ?st 2 "setMaxDataPoints (Fin 2) ?st" plain_engine ?res "[]" 7] p j
    by (simp add: setMaxDataPoints_def)
  have stale: "\<exists>st'. fetchData plain_engine ?st ?res [] 7 (setMaxDataPoints (Fin 2) ?st) = Inr st'
                 \<and> data st' = map point_of [1, 2, 3, 4]"
    using setMaxDataPoints_trims_at_next_append
      [of "Fin 2" ?st 20 ?st plain_engine ?res "[]" 7] p j m
    by (simp add: setMaxDataPoints_def)
  have c0: "(1 :: nat) \<le> 2" by simp
  have c1: "maxDataPoints (setMaxDataPoints (Fin 2) ?st) = Fin 2"
    by (simp add: setMaxDataPoints_def)
  have c2: "maxDataPoints ?st = Fin 20"
    by (simp add: initial_def)
  from c0 c1 c2 p fresh stale show ?thesis
    by (intro conjI)
qed

text \<open>
  The claim fails: lowering the capacity to 2 on a buffer of three points leaves the three
  points in the buffer.
\<close>

theorem setMaxDataPoints_keeps_data_counterexample:
  "data (setMaxDataPoints (Fin 2) (initial\<lparr>data := map point_of [1, 2, 3]\<rparr>))
     = map point_of [1, 2, 3]
   \<and> length (data (setMaxDataPoints (Fin 2) (initial\<lparr>data := map point_of [1, 2, 3]\<rparr>))) = 3"
  by (simp add: setMaxDataPoints_def)

section \<open>Properties of the statistics\<close>

lemma math_min_fold:
  "foldl (\<lambda>lowest x. if lowest = NaN \<or> x = NaN then NaN
                      else if js_less x lowest then x else lowest) (Fin a) (map Fin qs)
     = Fin (fold min qs a)"
  by (induction qs arbitrary: a) (simp_all add: min_def)

lemma math_max_fold:
  "foldl (\<lambda>highest x. if highest = NaN \<or> x = NaN then NaN
                       else if js_less highest x then x else highest) (Fin a) (map Fin qs)
     = Fin (fold max qs a)"
  by (induction qs arbitrary: a) (simp_all add: max_def)

lemma math_min_Fin: "qs \<noteq> [] \<Longrightarrow> math_min (map Fin qs) = Fin (Min (set qs))"
proof (cases qs)
  case Nil
  assume "qs \<noteq> []"
  with Nil show ?thesis by simp
next
  case (Cons q rest)
  have "math_min (map Fin qs) = Fin (fold min rest q)"
    using Cons math_min_fold [of q rest] by (simp add: math_min_def)
  also have "fold min rest q = Min (set qs)"
    using Cons Min.set_eq_fold [of q rest] by simp
  finally show ?thesis .
qed

lemma math_max_Fin: "qs \<noteq> [] \<Longrightarrow> math_max (map Fin qs) = Fin (Max (set qs))"
proof (cases qs)
  case Nil
  assume "qs \<noteq> []"
  with Nil show ?thesis by simp
next
  case (Cons q rest)
  have "math_max (map Fin qs) = Fin (fold max rest q)"
    using Cons math_max_fold [of q rest] by (simp add: math_max_def)
  also have "fold max rest q = Max (set qs)"
    using Cons Max.set_eq_fold [of q rest] by simp
  finally show ?thesis .
qed

lemma js_add_exact: "is_double (a + b) \<Longrightarrow> js_add (Fin a) (Fin b) = Fin (a + b)"
  by (simp add: is_double_def)

lemma js_div_exact:
  "b \<noteq> 0 \<Longrightarrow> is_double (a / b) \<Longrightarrow> js_div (Fin a) (Fin b) = Fin (a / b)"
  by (simp add: is_double_def)

lemma sum_Fin:
  "sums_exact a qs \<Longrightarrow> foldl js_add (Fin a) (map Fin qs) = Fin (a + sum_list qs)"
proof (induction qs arbitrary: a)
  case Nil
  then show ?case by simp
next
  case (Cons q qs)
  from Cons.prems have e: "is_double (a + q)" "sums_exact (a + q) qs"
    by simp_all
  have "foldl js_add (Fin a) (map Fin (q # qs)) = foldl js_add (js_add (Fin a) (Fin q)) (map Fin qs)"
    by simp
  also have "js_add (Fin a) (Fin q) = Fin (a + q)"
    using e(1) by (rule js_add_exact)
  also have "foldl js_add (Fin (a + q)) (map Fin qs) = Fin (a + q + sum_list qs)"
    using e(2) by (rule Cons.IH)
  finally show ?case by (simp add: add.assoc)
qed

lemma sum_val: "foldl (\<lambda>sum p. js_add sum (val p)) a d = foldl js_add a (map val d)"
  by (induction d arbitrary: a) simp_all

lemma last_val: "d \<noteq> [] \<Longrightarrow> val (d ! (length d - 1)) = val (last d)"
  using last_conv_nth [of d] by simp

text \<open>
  C7. \<^verbatim>\<open>stats\<close> is \<^verbatim>\<open>null\<close> exactly when the buffer is empty. On a non-empty buffer it is a
  record whose \<^verbatim>\<open>latest\<close> is the value of the last point. When the values of the retained
  points are the finite numbers \<open>qs\<close>, its fields are the last, the least and the greatest
  of \<open>qs\<close>, and the mean in floating point: the numbers added from the left, each sum
  rounded to a double, and the total divided by their count and rounded. Where no sum and
  no quotient needs rounding, that is the arithmetic mean. On the values 2, 4, 6 (the
  witness) the record is \<^verbatim>\<open>{latest: 6, min: 2, max: 6, avg: 4}\<close>.
\<close>

theorem stats_summary:
  "(stats d = None \<longleftrightarrow> d = [])
   \<and> (d \<noteq> [] \<longrightarrow> (\<exists>s. stats d = Some s \<and> latest s = val (last d)))
   \<and> (d \<noteq> [] \<longrightarrow> map val d = map Fin qs \<longrightarrow>
        (\<exists>s. stats d = Some s
           \<and> latest s = Fin (last qs)
           \<and> min_val s = Fin (Min (set qs))
           \<and> max_val s = Fin (Max (set qs))
           \<and> avg s = js_div (foldl js_add (Fin 0) (map Fin qs)) (Fin (of_nat (length qs)))
           \<and> (sums_exact 0 qs \<and> is_double (sum_list qs / of_nat (length qs)) \<longrightarrow>
                avg s = Fin (sum_list qs / of_nat (length qs)))))"
proof -
  have none: "stats d = None \<longleftrightarrow> d = []"
    by (simp add: stats_def)
  have some: "\<exists>s. stats d = Some s \<and> latest s = val (last d)" if "d \<noteq> []"
    using that last_val [of d] by (simp add: stats_def)
  have fin: "\<exists>s. stats d = Some s
           \<and> latest s = Fin (last qs)
           \<and> min_val s = Fin (Min (set qs))
           \<and> max_val s = Fin (Max (set qs))
           \<and> avg s = js_div (foldl js_add (Fin 0) (map Fin qs)) (Fin (of_nat (length qs)))
           \<and> (sums_exact 0 qs \<and> is_double (sum_list qs / of_nat (length qs)) \<longrightarrow>
                avg s = Fin (sum_list qs / of_nat (length qs)))"
    if d: "d \<noteq> []" and m: "map val d = map Fin qs"
  proof -
    from d m have qs: "qs \<noteq> []" by auto
    from m have len: "length d = length qs"
      using length_map by metis
    have "val (last d) = last (map val d)"
      using d by (simp add: last_map)
    also have "\<dots> = Fin (last qs)"
      using m qs by (simp add: last_map)
    finally have l: "val (d ! (length d - 1)) = Fin (last qs)"
      using d last_val [of d] by simp
    have s: "foldl (\<lambda>sum p. js_add sum (val p)) (Fin 0) d = foldl js_add (Fin 0) (map Fin qs)"
      by (simp only: sum_val m)
    have nz: "(of_nat (length qs) :: rat) \<noteq> 0"
      using qs by simp
    have exact: "js_div (foldl js_add (Fin 0) (map Fin qs)) (Fin (of_nat (length qs)))
                   = Fin (sum_list qs / of_nat (length qs))"
      if "sums_exact 0 qs" "is_double (sum_list qs / of_nat (length qs))"
    proof -
      have "foldl js_add (Fin 0) (map Fin qs) = Fin (sum_list qs)"
        using sum_Fin [OF that(1)] by simp
      then show ?thesis
        using js_div_exact [OF nz that(2)] by simp
    qed
    let ?s = "\<lparr> latest = Fin (last qs), min_val = Fin (Min (set qs)),
                max_val = Fin (Max (set qs)),
                avg = js_div (foldl js_add (Fin 0) (map Fin qs)) (Fin (of_nat (length qs))) \<rparr>"
    have "stats d = Some ?s"
      using d qs l s math_min_Fin [OF qs] math_max_Fin [OF qs]
      by (simp add: stats_def m len)
    moreover have "sums_exact 0 qs \<and> is_double (sum_list qs / of_nat (length qs)) \<longrightarrow>
                avg ?s = Fin (sum_list qs / of_nat (length qs))"
      using exact by simp
    ultimately show ?thesis
      by (intro exI [of _ ?s]) simp
  qed
  show ?thesis
    using none some fin by blast
qed

theorem stats_summary_witness:
  "map point_of [2, 4, 6] \<noteq> []
   \<and> map val (map point_of [2, 4, 6]) = map Fin [2, 4, 6]
   \<and> sums_exact 0 [2, 4, 6]
   \<and> is_double (sum_list [2, 4, 6] / of_nat (length [2 :: rat, 4, 6]))
   \<and> (\<exists>s. stats (map point_of [2, 4, 6]) = Some s
          \<and> latest s = Fin 6 \<and> min_val s = Fin 2 \<and> max_val s = Fin 6 \<and> avg s = Fin 4)
   \<and> stats [] = None"
proof -
  have m: "map val (map point_of [2, 4, 6]) = map Fin [2, 4, 6]"
    by (simp add: point_of_def)
  have e: "sums_exact 0 [2, 4, 6]"
    by code_simp
  have q: "is_double (sum_list [2, 4, 6] / of_nat (length [2 :: rat, 4, 6]))"
    by code_simp
  have n: "map point_of [2, 4, 6] \<noteq> []" by simp
  have "\<exists>s. stats (map point_of [2, 4, 6]) = Some s
          \<and> latest s = Fin 6 \<and> min_val s = Fin 2 \<and> max_val s = Fin 6 \<and> avg s = Fin 4"
    using stats_summary [of "map point_of [2, 4, 6]" "[2, 4, 6]"] m e q by auto
  moreover have "stats [] = None"
    using stats_summary [of "[]" "[]"] by simp
  ultimately show ?thesis
    using m e q n by (intro conjI)
qed

text \<open>Where a sum needs rounding, the mean is the rounded one: \<open>2^53 + 1\<close> is no double and
  is rounded to \<open>2^53\<close>, so the mean of \<open>2^53\<close> and 1 is \<open>2^52\<close>; the mean of 1, 2, 2 is
  the double nearest to five thirds.\<close>

lemma stats_rounds:
  "map_option avg (stats (map point_of [9007199254740992, 1])) = Some (Fin 4503599627370496)
   \<and> map_option avg (stats (map point_of [1, 2, 2]))
       = Some (Fin (7505999378950827 / 4503599627370496))"
  by code_simp

section \<open>Properties of the handlers\<close>

text \<open>
  C10. \<^verbatim>\<open>clearData\<close> sets the error to \<^verbatim>\<open>null\<close> as well as emptying the buffer, and changes
  nothing else (the capacity in particular): no error of an earlier poll is left.
\<close>

theorem clearData_resets_error:
  "error (clearData st) = None \<and> data (clearData st) = []
   \<and> clearData st = st\<lparr>data := [], error := None\<rparr>
   \<and> maxDataPoints (clearData st) = maxDataPoints st"
  by (simp add: clearData_def)

lemma setters_keep_data:
  "data (setApiUrl u st) = data st \<and> data (setJsonPath p st) = data st
   \<and> data (loadExample example st) = []"
  by (simp add: setApiUrl_def setJsonPath_def loadExample_def clearData_def setIsConfigOpen_def)

text \<open>
  C3. Editing the URL field or the path field changes the configuration and leaves the
  buffer as it is; only picking a bundled example empties it. Here the buffer holds one
  point, which is still there after either edit.
\<close>

theorem direct_edit_keeps_data:
  "data (update plain_engine (SetApiUrl ''https://randomuser.me/api/'')
           (initial\<lparr>data := [point_of 1]\<rparr>)) = [point_of 1]
   \<and> data (update plain_engine (SetJsonPath ''id'') (initial\<lparr>data := [point_of 1]\<rparr>))
       = [point_of 1]
   \<and> data (update plain_engine (LoadExample (apiExamples ! 2))
             (initial\<lparr>data := [point_of 1]\<rparr>)) = []"
  by (simp add: setApiUrl_def setJsonPath_def loadExample_def clearData_def setIsConfigOpen_def)

section \<open>Properties of the poll step\<close>

lemma newDataPoint_Rejected:
  "newDataPoint eng jp (Rejected m) stamp = Inl (TypeError m)"
  by (simp add: newDataPoint_def)

lemma newDataPoint_status:
  "\<not> ok status \<Longrightarrow>
   newDataPoint eng jp (Response status b) stamp
     = Inl (Error (''HTTP error! status: '' @ string_of_nat status))"
  by (simp add: newDataPoint_def)

lemma newDataPoint_BadBody:
  "ok status \<Longrightarrow> newDataPoint eng jp (Response status (BadBody m)) stamp = Inl (SyntaxError m)"
  by (simp add: newDataPoint_def)

lemma newDataPoint_JsonBody:
  "ok status \<Longrightarrow>
   newDataPoint eng jp (Response status (JsonBody j)) stamp
     = (case getValueFromPath (inherited eng) (Json j) jp of
          Inl e \<Rightarrow> Inl e
        | Inr v \<Rightarrow>
            (case point_value eng v of
               Inl e \<Rightarrow> Inl e
             | Inr n \<Rightarrow> Inr \<lparr> timestamp = stamp, val = n, fullData = j \<rparr>))"
  by (simp add: newDataPoint_def)

text \<open>
  C6. For every poll step, whatever the network gives back and whatever state the step
  updates:
  \<^item> the step returns a state: no exception leaves \<^verbatim>\<open>fetchData\<close>;
  \<^item> on success (the \<^verbatim>\<open>try\<close> block reaches the new data point) the point is appended to the
    buffer and the error is cleared, also when an earlier poll had set it;
  \<^item> on failure the error is set to the message of the exception and nothing else changes,
    the buffer in particular;
  \<^item> a rejected fetch, a status outside 200 to 299 and a body that is not JSON are failures;
    with a JSON body and a good status the step fails exactly when the extraction or the
    coercion raises, with that exception.
\<close>

theorem fetchData_outcomes:
  "(\<exists>st'. fetchData eng snap res stamp now st = Inr st')
   \<and> (\<forall>pt. newDataPoint eng (jsonPath snap) res stamp = Inr pt \<longrightarrow>
         fetchData eng snap res stamp now st
           = Inr (st\<lparr> data := append_point (maxDataPoints snap) (data st) pt,
                      lastUpdate := Some now, error := None \<rparr>))
   \<and> (\<forall>e. newDataPoint eng (jsonPath snap) res stamp = Inl e \<longrightarrow>
         fetchData eng snap res stamp now st = Inr (st\<lparr> error := Some (message e) \<rparr>))
   \<and> (\<forall>m. res = Rejected m \<longrightarrow>
         newDataPoint eng (jsonPath snap) res stamp = Inl (TypeError m))
   \<and> (\<forall>status b. res = Response status b \<and> \<not> ok status \<longrightarrow>
         newDataPoint eng (jsonPath snap) res stamp
           = Inl (Error (''HTTP error! status: '' @ string_of_nat status)))
   \<and> (\<forall>status m. res = Response status (BadBody m) \<and> ok status \<longrightarrow>
         newDataPoint eng (jsonPath snap) res stamp = Inl (SyntaxError m))
   \<and> (\<forall>status j. res = Response status (JsonBody j) \<and> ok status \<longrightarrow>
         newDataPoint eng (jsonPath snap) res stamp
           = (case getValueFromPath (inherited eng) (Json j) (jsonPath snap) of
                Inl e \<Rightarrow> Inl e
              | Inr v \<Rightarrow>
                  (case point_value eng v of
                     Inl e \<Rightarrow> Inl e
                   | Inr n \<Rightarrow> Inr \<lparr> timestamp = stamp, val = n, fullData = j \<rparr>)))"
proof -
  have returns: "\<exists>st'. fetchData eng snap res stamp now st = Inr st'"
    by (simp add: fetchData_def split: sum.splits)
  have success: "fetchData eng snap res stamp now st
           = Inr (st\<lparr> data := append_point (maxDataPoints snap) (data st) pt,
                      lastUpdate := Some now, error := None \<rparr>)"
    if "newDataPoint eng (jsonPath snap) res stamp = Inr pt" for pt
    using that by (simp add: fetchData_def)
  have failure: "fetchData eng snap res stamp now st = Inr (st\<lparr> error := Some (message e) \<rparr>)"
    if "newDataPoint eng (jsonPath snap) res stamp = Inl e" for e
    using that by (simp add: fetchData_def)
  show ?thesis
    using returns success failure newDataPoint_Rejected newDataPoint_status
      newDataPoint_BadBody newDataPoint_JsonBody
    by simp
qed

text \<open>The scenario of the specification: the fetch is rejected, then a poll succeeds on
  the Bitcoin document. Then three polls that fail and leave the buffer alone: one meets
  status 404, one reads \<^verbatim>\<open>constructor.caller\<close> on \<^verbatim>\<open>{}\<close>, where the accessor throws, and one
  extracts the object \<^verbatim>\<open>{"toString": 1}\<close>, where the coercion throws.\<close>

theorem fetchData_outcomes_witness:
  "newDataPoint plain_engine (jsonPath initial) (Rejected ''Failed to fetch'') ''10:00:00''
     = Inl (TypeError ''Failed to fetch'')
   \<and> fetchData plain_engine initial (Rejected ''Failed to fetch'') ''10:00:00'' 1 initial
     = Inr (initial\<lparr> error := Some ''Failed to fetch'' \<rparr>)
   \<and> newDataPoint plain_engine (jsonPath initial)
       (Response 200 (JsonBody (JObj [(''bpi'', JObj [(''USD'', JObj [(''rate_float'',
          JNum (Fin (135781 / 2)))])])]))) ''10:00:05''
     = Inr \<lparr> timestamp = ''10:00:05'', val = Fin (135781 / 2),
             fullData = JObj [(''bpi'', JObj [(''USD'', JObj [(''rate_float'',
               JNum (Fin (135781 / 2)))])])] \<rparr>
   \<and> fetchData plain_engine initial
       (Response 200 (JsonBody (JObj [(''bpi'', JObj [(''USD'', JObj [(''rate_float'',
          JNum (Fin (135781 / 2)))])])]))) ''10:00:05'' 2
       (initial\<lparr> error := Some ''Failed to fetch'' \<rparr>)
     = Inr (initial\<lparr> data := [\<lparr> timestamp = ''10:00:05'', val = Fin (135781 / 2),
             fullData = JObj [(''bpi'', JObj [(''USD'', JObj [(''rate_float'',
               JNum (Fin (135781 / 2)))])])] \<rparr>],
           lastUpdate := Some 2, error := None \<rparr>)
   \<and> fetchData plain_engine initial (Response 404 (JsonBody JNull)) ''10:00:10'' 3 initial
     = Inr (initial\<lparr> error := Some ''HTTP error! status: 404'' \<rparr>)
   \<and> fetchData accessor_engine (initial\<lparr> jsonPath := ''constructor.caller'' \<rparr>)
       (Response 200 (JsonBody (JObj []))) ''10:00:15'' 4 (initial\<lparr> data := [point_of 1] \<rparr>)
     = Inr (initial\<lparr> data := [point_of 1],
                     error := Some ''caller may not be accessed on this function'' \<rparr>)
   \<and> fetchData plain_engine (initial\<lparr> jsonPath := ''x'' \<rparr>)
       (Response 200 (JsonBody (JObj [(''x'', JObj [(''toString'', JNum (Fin 1))])])))
       ''10:00:20'' 5 (initial\<lparr> data := [point_of 1] \<rparr>)
     = Inr (initial\<lparr> data := [point_of 1],
                     error := Some ''Cannot convert object to primitive value'' \<rparr>)"
proof -
  let ?doc = "JObj [(''bpi'', JObj [(''USD'', JObj [(''rate_float'',
                JNum (Fin (135781 / 2)))])])]"
  let ?pt = "\<lparr> timestamp = ''10:00:05'', val = Fin (135781 / 2), fullData = ?doc \<rparr>"
  let ?snap1 = "initial\<lparr> jsonPath := ''constructor.caller'' \<rparr>"
  let ?snap2 = "initial\<lparr> jsonPath := ''x'' \<rparr>"
  let ?bad = "JObj [(''x'', JObj [(''toString'', JNum (Fin 1))])]"
  have r: "newDataPoint plain_engine (jsonPath initial) (Rejected ''Failed to fetch'') ''10:00:00''
             = Inl (TypeError ''Failed to fetch'')"
    by (simp add: newDataPoint_def)
  have p: "newDataPoint plain_engine (jsonPath initial) (Response 200 (JsonBody ?doc)) ''10:00:05''
             = Inr ?pt"
    by (simp add: newDataPoint_def ok_def initial_def getValueFromPath_def reducer_def
        plain_engine_def)
  have h: "newDataPoint plain_engine (jsonPath initial) (Response 404 (JsonBody JNull)) ''10:00:10''
             = Inl (Error ''HTTP error! status: 404'')"
    by (simp add: newDataPoint_def ok_def string_of_nat.simps)
  have c: "newDataPoint accessor_engine (jsonPath ?snap1) (Response 200 (JsonBody (JObj [])))
             ''10:00:15'' = Inl (TypeError ''caller may not be accessed on this function'')"
    by (simp add: newDataPoint_def ok_def getValueFromPath_def reducer_def
        accessor_engine_def plain_engine_def)
  have t: "newDataPoint plain_engine (jsonPath ?snap2) (Response 200 (JsonBody ?bad))
             ''10:00:20'' = Inl (TypeError ''Cannot convert object to primitive value'')"
    by (simp add: newDataPoint_def ok_def getValueFromPath_def reducer_def
        plain_engine_def parseFloat_def)
  have a: "append_point (maxDataPoints initial) [] ?pt = [?pt]"
    by (simp add: append_point_def initial_def trunc_def)
  have f1: "fetchData plain_engine initial (Rejected ''Failed to fetch'') ''10:00:00'' 1 initial
     = Inr (initial\<lparr> error := Some ''Failed to fetch'' \<rparr>)"
    using fetchData_outcomes [of plain_engine initial "Rejected ''Failed to fetch''"
        "''10:00:00''" 1 initial] r
    by simp
  have f2: "fetchData plain_engine initial (Response 200 (JsonBody ?doc)) ''10:00:05'' 2
       (initial\<lparr> error := Some ''Failed to fetch'' \<rparr>)
     = Inr (initial\<lparr> data := [?pt], lastUpdate := Some 2, error := None \<rparr>)"
    using fetchData_outcomes [of plain_engine initial "Response 200 (JsonBody ?doc)"
        "''10:00:05''" 2 "initial\<lparr> error := Some ''Failed to fetch'' \<rparr>"] p a
    by (simp add: initial_def)
  have f3: "fetchData plain_engine initial (Response 404 (JsonBody JNull)) ''10:00:10'' 3 initial
     = Inr (initial\<lparr> error := Some ''HTTP error! status: 404'' \<rparr>)"
    using fetchData_outcomes [of plain_engine initial "Response 404 (JsonBody JNull)"
        "''10:00:10''" 3 initial] h
    by simp
  have f4: "fetchData accessor_engine ?snap1 (Response 200 (JsonBody (JObj []))) ''10:00:15'' 4
       (initial\<lparr> data := [point_of 1] \<rparr>)
     = Inr (initial\<lparr> data := [point_of 1],
                     error := Some ''caller may not be accessed on this function'' \<rparr>)"
    using fetchData_outcomes [of accessor_engine ?snap1 "Response 200 (JsonBody (JObj []))"
        "''10:00:15''" 4 "initial\<lparr> data := [point_of 1] \<rparr>"] c
    by simp
  have f5: "fetchData plain_engine ?snap2 (Response 200 (JsonBody ?bad)) ''10:00:20'' 5
       (initial\<lparr> data := [point_of 1] \<rparr>)
     = Inr (initial\<lparr> data := [point_of 1],
                     error := Some ''Cannot convert object to primitive value'' \<rparr>)"
    using fetchData_outcomes [of plain_engine ?snap2 "Response 200 (JsonBody ?bad)"
        "''10:00:20''" 5 "initial\<lparr> data := [point_of 1] \<rparr>"] t
    by simp
  from r f1 p f2 f3 f4 f5 show ?thesis
    by (intro conjI)
qed

section \<open>Properties of the controller\<close>

lemma armed_mounted: "armed mounted"
  by (simp add: armed_def mounted_def effect_def initial_def host0_def)

lemma cleanup_armed:
  assumes "armed (st, h)"
  shows "timers (cleanup h) = [] \<and> nextHandle (cleanup h) = nextHandle h"
  using assms by (auto simp: armed_def cleanup_def split: option.splits)

lemma effect_armed:
  assumes "timers h = []" and "0 < nextHandle h"
  shows "armed (st, effect st h)"
  using assms by (simp add: armed_def effect_def)

lemma armed_commit:
  assumes "armed (st, h)"
  shows "armed (st', commit st st' h)"
proof (cases "deps st' = deps st")
  case True
  then have "isLive st' = isLive st" "refreshInterval st' = refreshInterval st"
    by (simp_all add: deps_def)
  with assms True show ?thesis
    by (simp add: armed_def commit_def split: option.splits)
next
  case False
  have "timers (cleanup h) = []" "0 < nextHandle (cleanup h)"
    using cleanup_armed [OF assms] assms by (simp_all add: armed_def)
  then have "armed (st', effect st' (cleanup h))"
    by (rule effect_armed)
  with False show ?thesis
    by (simp add: commit_def)
qed

lemma armed_step: "armed s \<Longrightarrow> armed (step eng s a)"
  using armed_commit [of "fst s" "snd s"] by (simp add: step_def Let_def)

lemma armed_foldl: "armed s \<Longrightarrow> armed (foldl (step eng) s acts)"
  by (induction acts arbitrary: s) (simp_all add: armed_step)

lemma armed_run: "armed (run eng acts)"
  by (simp add: run_def armed_foldl armed_mounted)

lemma armed_timers:
  "armed s \<Longrightarrow>
   map snd (timers (snd s)) = (if isLive (fst s) then [refreshInterval (fst s)] else [])"
  by (auto simp: armed_def split: option.splits)

text \<open>
  C8. In every state that the mounted component reaches, by any sequence of handler calls,
  \<^verbatim>\<open>setIsLive\<close> calls and settled polls: while it is live exactly one timer is armed, and its
  period is the current \<^verbatim>\<open>refreshInterval\<close>; while it is paused none is. So there are never
  two timers, setting \<^verbatim>\<open>isLive\<close> to true twice arms one, and a new interval replaces the old
  timer by one at the new period.
\<close>

theorem one_timer_while_live:
  "map snd (timers (snd (run eng acts)))
     = (if isLive (fst (run eng acts)) then [refreshInterval (fst (run eng acts))] else [])
   \<and> length (timers (snd (run eng acts))) = (if isLive (fst (run eng acts)) then 1 else 0)
   \<and> armed (run eng acts)"
proof -
  have t: "map snd (timers (snd (run eng acts)))
     = (if isLive (fst (run eng acts)) then [refreshInterval (fst (run eng acts))] else [])"
    using armed_run by (rule armed_timers)
  have "length (timers (snd (run eng acts))) = length (map snd (timers (snd (run eng acts))))"
    by simp
  also have "\<dots> = (if isLive (fst (run eng acts)) then 1 else 0)"
    by (simp only: t) simp
  finally show ?thesis
    using t armed_run by simp
qed

text \<open>Starting twice, changing the interval while live, and stopping.\<close>

lemma run_examples:
  "timers (snd (run plain_engine [SetIsLive True, SetIsLive True])) = [(1, 5000)]
   \<and> started (snd (run plain_engine [SetIsLive True, SetIsLive True])) = 1
   \<and> timers (snd (run plain_engine [SetIsLive True, SetRefreshInterval 1000])) = [(2, 1000)]
   \<and> timers (snd (run plain_engine [SetIsLive True, SetRefreshInterval 1000, SetIsLive False])) = []"
  by (simp add: run_def step_def mounted_def initial_def host0_def effect_def cleanup_def
      commit_def deps_def setIsLive_def setRefreshInterval_def)

end
